theory Spec2Isabelle
  imports Complex_Main "HOL-Library.Log_Nat"
begin

section \<open>Python values used by the two scripts\<close>

text \<open>
  Strings are lists of characters; a \<^typ>\<open>char\<close> stands for a code point below 256.
  The exceptions that the modelled code can raise are values of \<open>error\<close>.
\<close>

datatype error =
    FileNotFoundError
  | ParseError
  | AttributeError
  | TypeError
  | ValueError
  | OverflowError
  | ZeroDivisionError

subsection \<open>\<open>str.startswith\<close> and \<open>str(None)\<close>\<close>

definition startswith :: "string \<Rightarrow> string \<Rightarrow> bool" where
  "startswith s p = (take (length p) s = p)"

text \<open>An f-string renders \<open>None\<close> as the text \<open>None\<close> and a string as itself.\<close>

fun py_str :: "string option \<Rightarrow> string" where
  "py_str None = ''None''"
| "py_str (Some s) = s"

subsection \<open>\<open>int(s)\<close> on a string\<close>

text \<open>
  \<open>int\<close> strips surrounding white space, reads an optional sign and then decimal digits,
  where single underscores may separate digits. Anything else is a \<open>ValueError\<close>, and
  \<open>int(None)\<close> is a \<open>TypeError\<close>. Among the code points below 256 the white space that
  \<open>int\<close> strips is 9 to 13, 32, 133 and 160, and the only digits are \<open>0\<close> to \<open>9\<close>.
  The interpreter refuses literals with more than \<open>max_str_digits\<close> digits when that
  setting is not zero (4300 by default since CPython 3.11); it is a parameter here.
\<close>

definition is_space :: "char \<Rightarrow> bool" where
  "is_space ch = (of_char ch \<in> {9, 10, 11, 12, 13, 32, 133, 160 :: nat})"

definition is_digit :: "char \<Rightarrow> bool" where
  "is_digit ch = (48 \<le> (of_char ch :: nat) \<and> (of_char ch :: nat) \<le> 57)"

definition digit_val :: "char \<Rightarrow> int" where
  "digit_val ch = int (of_char ch) - 48"

definition strip :: "string \<Rightarrow> string" where
  "strip s = rev (dropWhile is_space (rev (dropWhile is_space s)))"

text \<open>
  \<open>digits_ok prev s\<close>: the body of the literal is digits with single underscores between
  them; \<open>prev\<close> tells whether the character before was a digit.
\<close>

fun digits_ok :: "bool \<Rightarrow> string \<Rightarrow> bool" where
  "digits_ok prev [] = prev"
| "digits_ok prev (ch # cs) =
     (if is_digit ch then digits_ok True cs
      else if ch = CHR ''_'' \<and> prev then digits_ok False cs
      else False)"

definition digits_value :: "string \<Rightarrow> int" where
  "digits_value s = foldl (\<lambda>acc ch. 10 * acc + digit_val ch) 0 (filter is_digit s)"

definition py_int_str :: "nat \<Rightarrow> string \<Rightarrow> error + int" where
  "py_int_str max_str_digits s =
     (let t = strip s;
          neg = (t \<noteq> [] \<and> hd t = CHR ''-'');
          body = (if t \<noteq> [] \<and> (hd t = CHR ''-'' \<or> hd t = CHR ''+'') then tl t else t)
      in if \<not> digits_ok False body then Inl ValueError
         else if 0 < max_str_digits \<and> max_str_digits < length (filter is_digit body)
         then Inl ValueError
         else Inr (if neg then - digits_value body else digits_value body))"

fun py_int :: "nat \<Rightarrow> string option \<Rightarrow> error + int" where
  "py_int max_str_digits None = Inl TypeError"
| "py_int max_str_digits (Some s) = py_int_str max_str_digits s"

subsection \<open>Floats\<close>

text \<open>
  A Python float is an IEEE 754 double: a sign bit with a magnitude that is a multiple of
  a power of two (53 significant bits, exponents down to \<open>2\<^sup>-\<^sup>1\<^sup>0\<^sup>7\<^sup>4\<close>), an infinity, or
  not-a-number. The magnitude of a finite float is kept as an exact rational.
\<close>

datatype pyfloat = Finite bool rat | Infinite bool | NaN

definition pow2 :: "int \<Rightarrow> rat" where
  "pow2 n = (if 0 \<le> n then 2 ^ nat n else 1 / 2 ^ nat (- n))"

text \<open>Rounding a rational to the nearest integer, ties to the even one.\<close>

definition round_half_even :: "rat \<Rightarrow> int" where
  "round_half_even z =
     (let f = \<lfloor>z\<rfloor>; r = z - of_int f
      in if r < 1 / 2 then f
         else if 1 / 2 < r then f + 1
         else if even f then f else f + 1)"

text \<open>\<open>floor_log2 x\<close> is the \<open>e\<close> with \<open>2\<^sup>e \<le> x < 2\<^sup>e\<^sup>+\<^sup>1\<close>, for a positive \<open>x\<close>.\<close>

definition floor_log2 :: "rat \<Rightarrow> int" where
  "floor_log2 x =
     (let d = bitlen (fst (quotient_of x)) - bitlen (snd (quotient_of x))
      in if pow2 d \<le> x then d else d - 1)"

text \<open>
  \<open>round_double x\<close> is the magnitude nearest to \<open>x \<ge> 0\<close> among the multiples of the
  spacing of doubles around \<open>x\<close>, ties to even, with the exponent unbounded above; a
  result of \<open>2\<^sup>1\<^sup>0\<^sup>2\<^sup>4\<close> or more is an overflow.
\<close>

definition round_double :: "rat \<Rightarrow> rat" where
  "round_double x =
     (if x = 0 then 0
      else let u = max (floor_log2 x - 52) (- 1074)
           in of_int (round_half_even (x / pow2 u)) * pow2 u)"

definition dbl_overflow :: "rat \<Rightarrow> bool" where
  "dbl_overflow y = (pow2 1024 \<le> y)"

text \<open>
  \<open>a / b\<close> on two ints is the correctly rounded quotient; it raises
  \<open>ZeroDivisionError\<close> for \<open>b = 0\<close> and \<open>OverflowError\<close> when the rounded quotient
  is out of range.
\<close>

definition true_div :: "int \<Rightarrow> int \<Rightarrow> error + pyfloat" where
  "true_div a b =
     (if b = 0 then Inl ZeroDivisionError
      else let y = round_double (\<bar>of_int a / of_int b\<bar>)
           in if dbl_overflow y then Inl OverflowError
              else Inr (Finite ((a < 0) \<noteq> (b < 0)) y))"

text \<open>Float multiplication rounds the exact product and overflows to an infinity.\<close>

fun float_mul :: "pyfloat \<Rightarrow> pyfloat \<Rightarrow> pyfloat" where
  "float_mul (Finite s x) (Finite t y) =
     (let z = round_double (x * y)
      in if dbl_overflow z then Infinite (s \<noteq> t) else Finite (s \<noteq> t) z)"
| "float_mul (Finite s x) (Infinite t) = (if x = 0 then NaN else Infinite (s \<noteq> t))"
| "float_mul (Infinite s) (Finite t y) = (if y = 0 then NaN else Infinite (s \<noteq> t))"
| "float_mul (Infinite s) (Infinite t) = Infinite (s \<noteq> t)"
| "float_mul NaN y = NaN"
| "float_mul x NaN = NaN"

text \<open>The int literals \<open>100\<close> and \<open>50\<close> convert to floats exactly.\<close>

definition float_of_small_int :: "int \<Rightarrow> pyfloat" where
  "float_of_small_int n = Finite (n < 0) \<bar>of_int n\<bar>"

fun float_lt :: "pyfloat \<Rightarrow> pyfloat \<Rightarrow> bool" where
  "float_lt (Finite s x) (Finite t y) = ((if s then - x else x) < (if t then - y else y))"
| "float_lt (Finite s x) (Infinite t) = (\<not> t)"
| "float_lt (Infinite s) (Finite t y) = s"
| "float_lt (Infinite s) (Infinite t) = (s \<and> \<not> t)"
| "float_lt NaN y = False"
| "float_lt x NaN = False"

text \<open>The value of a finite float, as a rational.\<close>

fun float_value :: "pyfloat \<Rightarrow> rat option" where
  "float_value (Finite s x) = Some (if s then - x else x)"
| "float_value (Infinite s) = None"
| "float_value NaN = None"

subsection \<open>The format specification \<open>.2f\<close>\<close>

definition digit_char :: "nat \<Rightarrow> char" where
  "digit_char d = char_of (48 + d mod 10)"

fun str_nat :: "nat \<Rightarrow> string" where
  "str_nat n = (if n < 10 then [digit_char n] else str_nat (n div 10) @ [digit_char (n mod 10)])"

text \<open>
  \<open>format(x, '.2f')\<close> rounds the exact value of the float to two decimals, ties to even,
  and keeps the sign bit (so a negative value that rounds to zero is \<open>-0.00\<close>).
\<close>

fun format_2f :: "pyfloat \<Rightarrow> string" where
  "format_2f (Finite s x) =
     (let n = nat (round_half_even (x * 100))
      in (if s then ''-'' else '''') @ str_nat (n div 100) @ ''.'' @
         [digit_char (n div 10 mod 10), digit_char (n mod 10)])"
| "format_2f (Infinite s) = (if s then ''-inf'' else ''inf'')"
| "format_2f NaN = ''nan''"

section \<open>The coverage report: \<open>parse_coverage.py\<close>\<close>

subsection \<open>Element trees\<close>

text \<open>
  An \<open>xml.etree.ElementTree\<close> element has a tag, a dictionary of attributes and its
  child elements in document order. The attribute dictionary is an association list
  read with \<^const>\<open>map_of\<close>; text and tails play no role in the script.
\<close>

datatype element =
  Element (tag: string) (attrib: "(string \<times> string) list") (children: "element list")

text \<open>\<open>elem.get(key)\<close> is the attribute's value, or \<open>None\<close> when it is absent.\<close>

definition get :: "element \<Rightarrow> string \<Rightarrow> string option" where
  "get elem key = map_of (attrib elem) key"

text \<open>\<open>elem.findall(t)\<close> for a plain tag name: the direct children with that tag, in order.\<close>

definition findall :: "element \<Rightarrow> string \<Rightarrow> element list" where
  "findall elem t = filter (\<lambda>c. tag c = t) (children elem)"

text \<open>
  \<open>elem.find('counter[@type="LINE"]')\<close>: the first direct child with tag \<open>counter\<close> whose
  attribute \<open>type\<close> is \<open>LINE\<close>, or \<open>None\<close>.
\<close>

definition find_line_counter :: "element \<Rightarrow> element option" where
  "find_line_counter elem =
     find (\<lambda>c. tag c = ''counter'' \<and> get c ''type'' = Some ''LINE'') (children elem)"

subsection \<open>Reading the file\<close>

text \<open>
  \<open>ET.parse(xml_file)\<close> meets a file that is absent, one that is not well-formed XML, or a
  well-formed document with its root element.
\<close>

datatype xml_file = Absent | Malformed | Document element

fun ET_parse :: "xml_file \<Rightarrow> error + element" where
  "ET_parse Absent = Inl FileNotFoundError"
| "ET_parse Malformed = Inl ParseError"
| "ET_parse (Document doc_root) = Inr doc_root"

subsection \<open>\<open>parse_jacoco_report\<close>\<close>

text \<open>
  The function prints lines and may raise. A run is the list of lines printed so far
  together with the exception that ended it, if any: what was printed before an exception
  stays printed.
\<close>

type_synonym printed = "string list"
type_synonym run = "printed \<times> error option"

definition prefix_const :: string where
  "prefix_const = ''com/android/designcompose''"

text \<open>\<open>coverage = (covered_lines / total_lines) * 100\<close>\<close>

definition coverage_of :: "int \<Rightarrow> int \<Rightarrow> error + pyfloat" where
  "coverage_of covered_lines total_lines =
     (case true_div covered_lines total_lines of
        Inl e \<Rightarrow> Inl e
      | Inr q \<Rightarrow> Inr (float_mul q (float_of_small_int 100)))"

definition report_line :: "string \<Rightarrow> string option \<Rightarrow> pyfloat \<Rightarrow> string" where
  "report_line package_name source_filename coverage =
     package_name @ ''/'' @ py_str source_filename @ '': '' @ format_2f coverage @ ''%''"

text \<open>The body of the inner loop, for one \<open>class\<close> element (lines 13 to 24).\<close>

definition class_body :: "nat \<Rightarrow> string \<Rightarrow> element \<Rightarrow> printed \<Rightarrow> run" where
  "class_body mxd package_name class_elem out =
     (let source_filename = get class_elem ''sourcefilename'' in
      case find_line_counter class_elem of
        None \<Rightarrow> (out, None)
      | Some line_counter \<Rightarrow>
          (case py_int mxd (get line_counter ''missed'') of
             Inl e \<Rightarrow> (out, Some e)
           | Inr missed_lines \<Rightarrow>
               (case py_int mxd (get line_counter ''covered'') of
                  Inl e \<Rightarrow> (out, Some e)
                | Inr covered_lines \<Rightarrow>
                    (let total_lines = missed_lines + covered_lines in
                     if 0 < total_lines then
                       (case coverage_of covered_lines total_lines of
                          Inl e \<Rightarrow> (out, Some e)
                        | Inr coverage \<Rightarrow>
                            if float_lt coverage (float_of_small_int 50)
                            then (out @ [report_line package_name source_filename coverage], None)
                            else (out, None))
                     else (out, None)))))"

text \<open>The inner \<open>for\<close> loop over the \<open>class\<close> children of a package.\<close>

fun class_loop :: "nat \<Rightarrow> string \<Rightarrow> element list \<Rightarrow> printed \<Rightarrow> run" where
  "class_loop mxd package_name [] out = (out, None)"
| "class_loop mxd package_name (class_elem # rest) out =
     (case class_body mxd package_name class_elem out of
        (out', Some e) \<Rightarrow> (out', Some e)
      | (out', None) \<Rightarrow> class_loop mxd package_name rest out')"

text \<open>
  The body of the outer loop, for one \<open>package\<close> element (lines 8 to 24). Calling
  \<open>startswith\<close> on \<open>None\<close> is an \<open>AttributeError\<close>.
\<close>

definition package_body :: "nat \<Rightarrow> element \<Rightarrow> printed \<Rightarrow> run" where
  "package_body mxd package out =
     (case get package ''name'' of
        None \<Rightarrow> (out, Some AttributeError)
      | Some package_name \<Rightarrow>
          if \<not> startswith package_name prefix_const then (out, None)
          else class_loop mxd package_name (findall package ''class'') out)"

fun package_loop :: "nat \<Rightarrow> element list \<Rightarrow> printed \<Rightarrow> run" where
  "package_loop mxd [] out = (out, None)"
| "package_loop mxd (package # rest) out =
     (case package_body mxd package out of
        (out', Some e) \<Rightarrow> (out', Some e)
      | (out', None) \<Rightarrow> package_loop mxd rest out')"

definition parse_jacoco_report :: "nat \<Rightarrow> xml_file \<Rightarrow> run" where
  "parse_jacoco_report mxd xml_file =
     (case ET_parse xml_file of
        Inl e \<Rightarrow> ([], Some e)
      | Inr doc_root \<Rightarrow> package_loop mxd (findall doc_root ''package'') [])"

section \<open>Properties of the coverage report\<close>

subsection \<open>How the loops compose\<close>

lemma package_loop_append:
  "package_loop mxd (xs @ ys) out =
     (case package_loop mxd xs out of
        (out', Some e) \<Rightarrow> (out', Some e)
      | (out', None) \<Rightarrow> package_loop mxd ys out')"
  by (induction xs arbitrary: out) (auto split: prod.splits option.splits)

lemma class_loop_append:
  "class_loop mxd pn (xs @ ys) out =
     (case class_loop mxd pn xs out of
        (out', Some e) \<Rightarrow> (out', Some e)
      | (out', None) \<Rightarrow> class_loop mxd pn ys out')"
  by (induction xs arbitrary: out) (auto split: prod.splits option.splits)

subsection \<open>Classes without a LINE counter\<close>

text \<open>
  Claim C4. A class element none of whose children is a \<open>counter\<close> of type \<open>LINE\<close> is
  skipped: its iteration prints nothing and raises nothing, and the loop goes on with the
  remaining classes exactly as if the class were not there.
\<close>

theorem class_without_line_counter_skipped:
  assumes "\<forall>c \<in> set (children class_elem).
             \<not> (tag c = ''counter'' \<and> get c ''type'' = Some ''LINE'')"
  shows "class_body mxd package_name class_elem out = (out, None) \<and>
         class_loop mxd package_name (class_elem # rest) out =
           class_loop mxd package_name rest out"
proof -
  have "find_line_counter class_elem = None"
    unfolding find_line_counter_def using assms by (simp add: find_None_iff)
  then have "class_body mxd package_name class_elem out = (out, None)"
    by (simp add: class_body_def)
  then show ?thesis by simp
qed

theorem class_without_line_counter_skipped_witness:
  "class_body 4300 ''com/android/designcompose/x''
     (Element ''class'' [(''name'', ''a/B''), (''sourcefilename'', ''B.kt'')]
        [Element ''counter'' [(''type'', ''BRANCH''), (''missed'', ''3''), (''covered'', ''0'')] []])
     [] = ([], None) \<and>
   class_loop 4300 ''com/android/designcompose/x''
     [Element ''class'' [(''name'', ''a/B''), (''sourcefilename'', ''B.kt'')]
        [Element ''counter'' [(''type'', ''BRANCH''), (''missed'', ''3''), (''covered'', ''0'')] []]]
     [] = ([], None)"
  using class_without_line_counter_skipped
    [of "Element ''class'' [(''name'', ''a/B''), (''sourcefilename'', ''B.kt'')]
        [Element ''counter'' [(''type'', ''BRANCH''), (''missed'', ''3''), (''covered'', ''0'')] []]"
        4300 "''com/android/designcompose/x''" "[]" "[]"]
  by (simp add: get_def)

end
